theory Spec2Isabelle
  imports Complex_Main
begin

section \<open>Python values and text\<close>

text \<open>
  Text is a \<^typ>\<open>string\<close>; a character is read as the code point of the same number
  (0 to 255). \<open>str.strip\<close>, \<open>str.lower\<close> and the classes of the \<open>re\<close> module are
  given on that range as Python defines them there.
\<close>

definition is_space :: "char \<Rightarrow> bool" where
  "is_space c = (let n = (of_char c :: nat) in
     (9 \<le> n \<and> n \<le> 13) \<or> (28 \<le> n \<and> n \<le> 32) \<or> n = 133 \<or> n = 160)"

definition lower_char :: "char \<Rightarrow> char" where
  "lower_char c = (let n = (of_char c :: nat) in
     if (65 \<le> n \<and> n \<le> 90) \<or> (192 \<le> n \<and> n \<le> 222 \<and> n \<noteq> 215)
     then char_of (n + 32) else c)"

definition lower :: "string \<Rightarrow> string" where
  "lower s = map lower_char s"

definition strip :: "string \<Rightarrow> string" where
  "strip s = rev (dropWhile is_space (rev (dropWhile is_space s)))"

text \<open>
  The values a \<open>Dict[str, Any]\<close> of the program holds: \<open>None\<close>, booleans, unbounded
  integers, text, lists, and dictionaries with text keys (an association list, the first
  binding of a key being its value).
\<close>

datatype pyval =
    PNone
  | PBool bool
  | PInt int
  | PStr string
  | PList "pyval list"
  | PDict "(string \<times> pyval) list"

datatype py_error = IndexError | KeyError | ValueError | TypeError

type_synonym pydict = "string \<Rightarrow> pyval option"

subsection \<open>\<open>str()\<close> of a value\<close>

text \<open>The decimal digits of a number that is not negative.\<close>

function dec_digits :: "int \<Rightarrow> string" where
  "dec_digits n = (if n < 10 then [char_of (48 + nat n)]
                   else dec_digits (n div 10) @ [char_of (48 + nat (n mod 10))])"
  by pat_completeness auto
termination
  by (relation "measure nat") auto

declare dec_digits.simps [simp del]

definition dec_int :: "int \<Rightarrow> string" where
  "dec_int i = (if i < 0 then CHR ''-'' # dec_digits (- i) else dec_digits i)"

section \<open>PRISMA-7 scoring (app/tools/frailty.py)\<close>

record prisma_q =
  qkey :: string
  qtext :: string
  qreverse :: bool

definition PRISMA_QUESTIONS :: "prisma_q list" where
  "PRISMA_QUESTIONS = [
     \<lparr>qkey = ''over_85'', qtext = ''Are you over 85? (yes/no)'', qreverse = False\<rparr>,
     \<lparr>qkey = ''male'', qtext = ''Are you male? (yes/no)'', qreverse = False\<rparr>,
     \<lparr>qkey = ''limit_activities'',
      qtext = ''Do health problems limit your activities? (yes/no)'', qreverse = False\<rparr>,
     \<lparr>qkey = ''need_help_regularly'',
      qtext = ''Do you need help on a regular basis? (yes/no)'', qreverse = False\<rparr>,
     \<lparr>qkey = ''stay_home'',
      qtext = ''Do health problems force you to stay at home? (yes/no)'', qreverse = False\<rparr>,
     \<lparr>qkey = ''someone_close'',
      qtext = ''In case of need, can you count on someone close to you? (yes/no)'',
      qreverse = True\<rparr>,
     \<lparr>qkey = ''use_aid'',
      qtext = ''Do you regularly use a cane, walker, or wheelchair? (yes/no)'',
      qreverse = False\<rparr>]"

definition PRISMA_ORDER :: "string list" where
  "PRISMA_ORDER = map qkey PRISMA_QUESTIONS"

text \<open>
  \<open>_normalize_bool\<close>: a bool is itself, \<open>None\<close> is unparseable, anything else goes
  through \<open>str(value).strip().lower()\<close>. The text of a list or dictionary starts with a
  bracket and is in neither set.
\<close>

fun normalize_bool :: "pyval \<Rightarrow> bool option" where
  "normalize_bool (PBool b) = Some b"
| "normalize_bool PNone = None"
| "normalize_bool (PInt i) =
     (let s = lower (strip (dec_int i)) in
      if s \<in> set [''y'', ''yes'', ''true'', ''1''] then Some True
      else if s \<in> set [''n'', ''no'', ''false'', ''0''] then Some False
      else None)"
| "normalize_bool (PStr t) =
     (let s = lower (strip t) in
      if s \<in> set [''y'', ''yes'', ''true'', ''1''] then Some True
      else if s \<in> set [''n'', ''no'', ''false'', ''0''] then Some False
      else None)"
| "normalize_bool (PList xs) = None"
| "normalize_bool (PDict kvs) = None"

text \<open>The first loop of \<open>prisma7_score\<close>: every key present and parseable, or \<open>None\<close>.\<close>

fun normalize_answers ::
  "prisma_q list \<Rightarrow> pydict \<Rightarrow> (string \<Rightarrow> bool option) \<Rightarrow> (string \<Rightarrow> bool option) option" where
  "normalize_answers [] answers normalized = Some normalized"
| "normalize_answers (q # qs) answers normalized =
     (case answers (qkey q) of
        None \<Rightarrow> None
      | Some v \<Rightarrow>
          (case normalize_bool v of
             None \<Rightarrow> None
           | Some b \<Rightarrow> normalize_answers qs answers (normalized(qkey q \<mapsto> b))))"

text \<open>The second loop: one point per risk answer; \<open>normalized[k]\<close> raises on a missing key.\<close>

fun score_answers :: "prisma_q list \<Rightarrow> (string \<Rightarrow> bool option) \<Rightarrow> int \<Rightarrow> py_error + int" where
  "score_answers [] normalized score = Inr score"
| "score_answers (q # qs) normalized score =
     (case normalized (qkey q) of
        None \<Rightarrow> Inl KeyError
      | Some v \<Rightarrow>
          if qreverse q then score_answers qs normalized (score + (if \<not> v then 1 else 0))
          else score_answers qs normalized (score + (if v then 1 else 0)))"

definition prisma7_score :: "pydict \<Rightarrow> py_error + int option" where
  "prisma7_score answers =
     (case normalize_answers PRISMA_QUESTIONS answers Map.empty of
        None \<Rightarrow> Inr None
      | Some normalized \<Rightarrow>
          (case score_answers PRISMA_QUESTIONS normalized 0 of
             Inl e \<Rightarrow> Inl e
           | Inr s \<Rightarrow> Inr (Some s)))"

definition prisma7_is_high_risk :: "int option \<Rightarrow> bool option" where
  "prisma7_is_high_risk score = (case score of None \<Rightarrow> None | Some s \<Rightarrow> Some (s \<ge> 3))"

fun next_unanswered :: "prisma_q list \<Rightarrow> pydict \<Rightarrow> (string \<times> string) option" where
  "next_unanswered [] answers = None"
| "next_unanswered (q # qs) answers =
     (let v = (case answers (qkey q) of None \<Rightarrow> PNone | Some x \<Rightarrow> x) in
      if normalize_bool v = None then Some (qkey q, qtext q)
      else next_unanswered qs answers)"

definition prisma7_next_unanswered :: "pydict \<Rightarrow> (string \<times> string) option" where
  "prisma7_next_unanswered answers = next_unanswered PRISMA_QUESTIONS answers"

section \<open>PRISMA-7 scoring, second variant (livewell-e/backend/app/tools/frailty.py)\<close>

text \<open>\<open>bool(x)\<close>: the truth value Python gives a value.\<close>

fun py_truthy :: "pyval \<Rightarrow> bool" where
  "py_truthy PNone = False"
| "py_truthy (PBool b) = b"
| "py_truthy (PInt i) = (i \<noteq> 0)"
| "py_truthy (PStr s) = (s \<noteq> [])"
| "py_truthy (PList xs) = (xs \<noteq> [])"
| "py_truthy (PDict kvs) = (kvs \<noteq> [])"

definition lw_KEYS :: "string list" where
  "lw_KEYS = [''over_85'', ''male'', ''health_problems_limit_activities'',
              ''need_help_regularly'', ''health_problems_stay_home'',
              ''count_on_someone_close'', ''use_stick_walker_wheelchair'']"

text \<open>
  \<open>_get\<close> on a mapping (a dictionary has none of the keys as an attribute, so the
  \<open>hasattr\<close> branch is not taken): \<open>bool(inputs.get(key, False))\<close>.
\<close>

definition lw_get :: "pydict \<Rightarrow> string \<Rightarrow> bool" where
  "lw_get inputs k = py_truthy (case inputs k of None \<Rightarrow> PBool False | Some v \<Rightarrow> v)"

definition lw_prisma7_score :: "pydict \<Rightarrow> int \<Rightarrow> int \<times> string" where
  "lw_prisma7_score inputs threshold =
     (let score = sum_list (map (\<lambda>k. 1) (filter (lw_get inputs) lw_KEYS));
          band = (if score \<ge> threshold then ''potential_frail'' else ''low'')
      in (score, band))"

section \<open>Regular expressions (the part of Python's \<open>re\<close> the program uses)\<close>

definition is_digit :: "char \<Rightarrow> bool" where
  "is_digit c = (let n = (of_char c :: nat) in 48 \<le> n \<and> n \<le> 57)"

text \<open>\<open>\w\<close>: letters, digits and other numeric characters of the range, and the underscore.\<close>

definition is_word :: "char \<Rightarrow> bool" where
  "is_word c = (let n = (of_char c :: nat) in
     (48 \<le> n \<and> n \<le> 57) \<or> (65 \<le> n \<and> n \<le> 90) \<or> n = 95 \<or> (97 \<le> n \<and> n \<le> 122)
     \<or> n = 170 \<or> n = 178 \<or> n = 179 \<or> n = 181 \<or> n = 185 \<or> n = 186
     \<or> (188 \<le> n \<and> n \<le> 190) \<or> (192 \<le> n \<and> n \<le> 214) \<or> (216 \<le> n \<and> n \<le> 246)
     \<or> 248 \<le> n)"

definition is_ascii_alpha :: "char \<Rightarrow> bool" where
  "is_ascii_alpha c = (let n = (of_char c :: nat) in
     (65 \<le> n \<and> n \<le> 90) \<or> (97 \<le> n \<and> n \<le> 122))"

text \<open>
  A pattern: literal text, a character class repeated greedily between a lower and an
  optional upper bound, the word boundary \<open>\b\<close>, sequence, alternation, a greedy optional
  part, and a numbered capturing group.
\<close>

datatype rx =
    Lit string
  | Rep "char \<Rightarrow> bool" nat "nat option"
  | WordB
  | Cat rx rx
  | Alt rx rx
  | Opt rx
  | Grp nat rx

type_synonym caps = "(nat \<times> nat \<times> nat) list"

text \<open>Does the literal \<open>t\<close> stand at position \<open>i\<close> of \<open>s\<close> (letters compared without case if \<open>ic\<close>)?\<close>

definition lit_at :: "bool \<Rightarrow> string \<Rightarrow> string \<Rightarrow> nat \<Rightarrow> bool" where
  "lit_at ic t s i =
     (i + length t \<le> length s \<and>
      (if ic then lower (take (length t) (drop i s)) = lower t
       else take (length t) (drop i s) = t))"

text \<open>\<open>\b\<close> at position \<open>i\<close>: exactly one of the characters before and after is a word character.\<close>

definition word_at :: "string \<Rightarrow> nat \<Rightarrow> bool" where
  "word_at s i = (i < length s \<and> is_word (s ! i))"

definition word_boundary :: "string \<Rightarrow> nat \<Rightarrow> bool" where
  "word_boundary s i = ((i > 0 \<and> word_at s (i - 1)) \<noteq> word_at s i)"

definition run_length :: "(char \<Rightarrow> bool) \<Rightarrow> string \<Rightarrow> nat \<Rightarrow> nat" where
  "run_length p s i = length (takeWhile p (drop i s))"

text \<open>
  All ways the pattern matches from a position, as end positions with the groups
  captured, in the order a backtracking matcher tries them (the longest repetition first,
  the left alternative first).
\<close>

fun rmatch :: "bool \<Rightarrow> rx \<Rightarrow> string \<Rightarrow> nat \<times> caps \<Rightarrow> (nat \<times> caps) list" where
  "rmatch ic (Lit t) s (i, c) = (if lit_at ic t s i then [(i + length t, c)] else [])"
| "rmatch ic (Rep p lo hi) s (i, c) =
     (let n = run_length p s i;
          m = (case hi of None \<Rightarrow> n | Some h \<Rightarrow> min n h)
      in map (\<lambda>k. (i + k, c)) (rev [lo..<Suc m]))"
| "rmatch ic WordB s (i, c) = (if word_boundary s i then [(i, c)] else [])"
| "rmatch ic (Cat r1 r2) s st = concat (map (rmatch ic r2 s) (rmatch ic r1 s st))"
| "rmatch ic (Alt r1 r2) s st = rmatch ic r1 s st @ rmatch ic r2 s st"
| "rmatch ic (Opt r) s st = rmatch ic r s st @ [st]"
| "rmatch ic (Grp g r) s (i, c) =
     map (\<lambda>(j, c'). (j, (g, i, j) # c')) (rmatch ic r s (i, c))"

fun seq :: "rx list \<Rightarrow> rx" where
  "seq [] = Lit []"
| "seq [r] = r"
| "seq (r # rs) = Cat r (seq rs)"

fun alts :: "rx list \<Rightarrow> rx" where
  "alts [] = Rep (\<lambda>c. False) 1 None"
| "alts [r] = r"
| "alts (r # rs) = Alt r (alts rs)"

text \<open>
  \<open>re.search\<close>: the first start position with a match, and the first match there.
  The result is the span of the match and the groups.
\<close>

fun search_from :: "bool \<Rightarrow> rx \<Rightarrow> string \<Rightarrow> nat \<Rightarrow> nat \<Rightarrow> (nat \<times> nat \<times> caps) option" where
  "search_from ic r s i 0 =
     (case rmatch ic r s (i, []) of [] \<Rightarrow> None | (j, c) # _ \<Rightarrow> Some (i, j, c))"
| "search_from ic r s i (Suc k) =
     (case rmatch ic r s (i, []) of
        [] \<Rightarrow> search_from ic r s (Suc i) k
      | (j, c) # _ \<Rightarrow> Some (i, j, c))"

definition re_search :: "bool \<Rightarrow> rx \<Rightarrow> string \<Rightarrow> (nat \<times> nat \<times> caps) option" where
  "re_search ic r s = search_from ic r s 0 (length s)"

definition re_found :: "bool \<Rightarrow> rx \<Rightarrow> string \<Rightarrow> bool" where
  "re_found ic r s = (re_search ic r s \<noteq> None)"

text \<open>\<open>re.fullmatch\<close>: some way of matching from the start ends at the end of the text.\<close>

definition re_fullmatch :: "bool \<Rightarrow> rx \<Rightarrow> string \<Rightarrow> bool" where
  "re_fullmatch ic r s = list_ex (\<lambda>x. fst x = length s) (rmatch ic r s (0, []))"

text \<open>The text of group \<open>g\<close> of a match.\<close>

definition group_text :: "string \<Rightarrow> caps \<Rightarrow> nat \<Rightarrow> string option" where
  "group_text s c g =
     (case map_of c g of None \<Rightarrow> None | Some (i, j) \<Rightarrow> Some (take (j - i) (drop i s)))"

section \<open>Yes/no parsing\<close>

subsection \<open>\<open>_yn\<close> (app/graph/nodes.py)\<close>

definition YES :: "string list" where
  "YES = [''y'', ''yes'', ''yeah'', ''yep'', ''true'', ''sure'', ''go'', ''start'', ''plan'']"

definition NO :: "string list" where
  "NO = [''n'', ''no'', ''nope'', ''false'', ''later'', ''not now'', ''skip'']"

definition yn :: "string \<Rightarrow> bool option" where
  "yn v0 = (let v = lower (strip v0) in
     if v \<in> set YES then Some True
     else if v \<in> set NO then Some False
     else None)"

subsection \<open>\<open>_parse_yes_no\<close> (livewell-e/backend/app/graph/nodes.py)\<close>

definition lw_yes :: "string list" where
  "lw_yes = [''y'', ''yes'', ''yeah'', ''yep'', ''sure'', ''correct'']"

definition lw_no :: "string list" where
  "lw_no = [''n'', ''no'', ''nope'', ''nah'']"

text \<open>The patterns \<open>\by(es)?\b\<close> and \<open>\bn(o)?\b\<close>.\<close>

definition rx_y_es :: rx where
  "rx_y_es = seq [WordB, Lit ''y'', Opt (Grp 1 (Lit ''es'')), WordB]"

definition rx_n_o :: rx where
  "rx_n_o = seq [WordB, Lit ''n'', Opt (Grp 1 (Lit ''o'')), WordB]"

definition lw_parse_yes_no :: "string \<Rightarrow> bool option \<times> string" where
  "lw_parse_yes_no text = (let t = strip (lower text) in
     if t \<in> set lw_yes then (Some True, [])
     else if t \<in> set lw_no then (Some False, [])
     else if re_found False rx_y_es t then (Some True, [])
     else if re_found False rx_n_o t then (Some False, [])
     else (None, ''Please answer yes or no.''))"

subsection \<open>The parser as the specification words it\<close>

text \<open>
  A case-insensitive exact-token match against a yes-set and a no-set; failing that, a
  whole-word match for a bare \<open>y\<close>, \<open>yes\<close>, \<open>n\<close> or \<open>no\<close>; failing that, unknown.
  A whole word is an occurrence with a word boundary on each side.
\<close>

definition whole_word :: "string \<Rightarrow> string \<Rightarrow> bool" where
  "whole_word w t =
     list_ex (\<lambda>i. lit_at False w t i \<and> word_boundary t i \<and> word_boundary t (i + length w))
       [0..<Suc (length t)]"

definition exact_yes_no :: "string list \<Rightarrow> string list \<Rightarrow> string \<Rightarrow> bool option" where
  "exact_yes_no yes no text = (let t = lower (strip text) in
     if t \<in> set yes then Some True
     else if t \<in> set no then Some False
     else None)"

definition parseYesNo_spec :: "string list \<Rightarrow> string list \<Rightarrow> string \<Rightarrow> bool option" where
  "parseYesNo_spec yes no text =
     (case exact_yes_no yes no text of
        Some b \<Rightarrow> Some b
      | None \<Rightarrow>
          (let t = lower (strip text) in
           if whole_word ''y'' t \<or> whole_word ''yes'' t then Some True
           else if whole_word ''n'' t \<or> whole_word ''no'' t then Some False
           else None))"

section \<open>The dialogue nodes (app/graph/nodes.py)\<close>

subsection \<open>Session state (app/graph/state.py)\<close>

text \<open>
  A message of the transcript (its time stamp, which no node reads, is left out) and the
  session state. A field that is absent or \<open>None\<close> in the dictionary is \<open>None\<close> here; the
  code reads such fields through \<open>state.get\<close> and does not tell the two apart.
\<close>

record msg =
  role :: string
  content :: string

record state =
  messages :: "msg list"
  reply :: "string option"
  slots :: pydict
  required_slots :: "string list"
  awaiting :: "string option"
  prisma_answers :: pydict
  prisma_index :: int
  frailty_score :: "int option"
  plan :: pydict
  plan_seed :: "int option"
  session_id :: "string option"
  label :: "string option"

definition new_session :: state where
  "new_session = \<lparr>messages = [], reply = None, slots = Map.empty,
     required_slots = [''mood'', ''energy'', ''steps''], awaiting = None,
     prisma_answers = Map.empty, prisma_index = 0, frailty_score = None,
     plan = Map.empty, plan_seed = None, session_id = None, label = None\<rparr>"

definition add_user_message :: "state \<Rightarrow> string \<Rightarrow> state" where
  "add_user_message st c = st\<lparr>messages := messages st @ [\<lparr>role = ''user'', content = c\<rparr>]\<rparr>"

definition add_assistant_message :: "state \<Rightarrow> string \<Rightarrow> state" where
  "add_assistant_message st c =
     st\<lparr>messages := messages st @ [\<lparr>role = ''assistant'', content = c\<rparr>], reply := Some c\<rparr>"

definition reset_reply :: "state \<Rightarrow> state" where
  "reset_reply st = st\<lparr>reply := None\<rparr>"

text \<open>
  The expression every node starts with:
  \<open>(state.get("messages", [])[-1].get("content") if state.get("messages") else "") or ""\<close>.
\<close>

definition last_user_text :: "state \<Rightarrow> string" where
  "last_user_text st = (if messages st = [] then [] else content (last (messages st)))"

subsection \<open>Text helpers\<close>

text \<open>\<open>w in text\<close> on strings: \<open>w\<close> occurs somewhere in \<open>text\<close>.\<close>

definition contains :: "string \<Rightarrow> string \<Rightarrow> bool" where
  "contains t w = list_ex (\<lambda>i. lit_at False w t i) [0..<Suc (length t)]"

definition startswith :: "string \<Rightarrow> string \<Rightarrow> bool" where
  "startswith s p = (take (length p) s = p)"

text \<open>\<open>int(text)\<close> for a text made of an optional minus sign and decimal digits.\<close>

definition digits_value :: "string \<Rightarrow> int" where
  "digits_value ds = foldl (\<lambda>a c. 10 * a + (of_char c - 48)) 0 ds"

definition int_of_dec :: "string \<Rightarrow> int" where
  "int_of_dec t = (case t of
       [] \<Rightarrow> 0
     | c # cs \<Rightarrow> if c = CHR ''-'' then - digits_value cs else digits_value t)"

subsection \<open>Patterns\<close>

definition sp_or_dash :: "char \<Rightarrow> bool" where
  "sp_or_dash c = (c = CHR '' '' \<or> c = CHR ''-'')"

definition check_in :: rx where
  "check_in = seq [Lit ''check'', Rep sp_or_dash 0 (Some 1), Lit ''in'']"

text \<open>\<open>\b(daily\s*check[ -]?in|check[ -]?in|checkup|check-up|todays?\s*check[ -]?in)\b\<close>\<close>

definition CHECKIN_RX :: rx where
  "CHECKIN_RX = seq [WordB,
     Grp 1 (alts [
       seq [Lit ''daily'', Rep is_space 0 None, check_in],
       check_in,
       Lit ''checkup'',
       Lit ''check-up'',
       seq [Lit ''today'', Rep (\<lambda>c. lower_char c = CHR ''s'') 0 (Some 1),
            Rep is_space 0 None, check_in]]),
     WordB]"

text \<open>\<open>\b(motivat(e|ion)|pep\s*talk|encourage|boost|inspire)\b\<close>\<close>

definition MOTIVATE_RX :: rx where
  "MOTIVATE_RX = seq [WordB,
     Grp 1 (alts [
       seq [Lit ''motivat'', Grp 2 (Alt (Lit ''e'') (Lit ''ion''))],
       seq [Lit ''pep'', Rep is_space 0 None, Lit ''talk''],
       Lit ''encourage'',
       Lit ''boost'',
       Lit ''inspire'']),
     WordB]"

text \<open>\<open>\b(restart|start over|redo)\b\<close>\<close>

definition RESTART_RX :: rx where
  "RESTART_RX = seq [WordB,
     Grp 1 (alts [Lit ''restart'', Lit ''start over'', Lit ''redo'']), WordB]"

text \<open>\<open>\bw\b\<close> for a word \<open>w\<close>.\<close>

definition word_rx :: "string \<Rightarrow> rx" where
  "word_rx w = seq [WordB, Lit w, WordB]"

text \<open>\<open>\btired+d*\b\<close>, \<open>\bok(?:ay)?\b\<close>, \<open>(-?\d{1,6})\<close>, \<open>\s*\d{1,6}\s*\<close> and \<open>\d{1,6}\<close>.\<close>

definition TIRED_RX :: rx where
  "TIRED_RX = seq [WordB, Lit ''tire'', Rep (\<lambda>c. c = CHR ''d'') 1 None,
                   Rep (\<lambda>c. c = CHR ''d'') 0 None, WordB]"

definition OKAY_RX :: rx where
  "OKAY_RX = seq [WordB, Lit ''ok'', Opt (Lit ''ay''), WordB]"

definition INT_RX :: rx where
  "INT_RX = Grp 1 (seq [Rep (\<lambda>c. c = CHR ''-'') 0 (Some 1), Rep is_digit 1 (Some 6)])"

definition NUM_ONLY_SP_RX :: rx where
  "NUM_ONLY_SP_RX = seq [Rep is_space 0 None, Rep is_digit 1 (Some 6), Rep is_space 0 None]"

definition NUM_ONLY_RX :: rx where
  "NUM_ONLY_RX = Rep is_digit 1 (Some 6)"

definition colon_or_eq :: "char \<Rightarrow> bool" where
  "colon_or_eq c = (c = CHR '':'' \<or> c = CHR ''='')"

text \<open>
  \<open>\bmood\s*[:=]?\s*([a-zA-Z]+)\<close>, \<open>\benergy\s*[:=]?\s*(\d{1,2})\<close>,
  \<open>\bsteps?\s*[:=]?\s*(\d{2,6})\b\<close> and \<open>\b(\d{2,6})\s+steps?\b\<close>.
\<close>

definition MOOD_KV_RX :: rx where
  "MOOD_KV_RX = seq [WordB, Lit ''mood'', Rep is_space 0 None, Rep colon_or_eq 0 (Some 1),
                     Rep is_space 0 None, Grp 1 (Rep is_ascii_alpha 1 None)]"

definition ENERGY_KV_RX :: rx where
  "ENERGY_KV_RX = seq [WordB, Lit ''energy'', Rep is_space 0 None, Rep colon_or_eq 0 (Some 1),
                       Rep is_space 0 None, Grp 1 (Rep is_digit 1 (Some 2))]"

definition STEPS_KV_RX :: rx where
  "STEPS_KV_RX = seq [WordB, Lit ''step'', Rep (\<lambda>c. lower_char c = CHR ''s'') 0 (Some 1),
                      Rep is_space 0 None, Rep colon_or_eq 0 (Some 1), Rep is_space 0 None,
                      Grp 1 (Rep is_digit 2 (Some 6)), WordB]"

definition NUM_STEPS_RX :: rx where
  "NUM_STEPS_RX = seq [WordB, Grp 1 (Rep is_digit 2 (Some 6)), Rep is_space 1 None,
                       Lit ''step'', Rep (\<lambda>c. lower_char c = CHR ''s'') 0 (Some 1), WordB]"

subsection \<open>Extractors\<close>

text \<open>The text of group 1 of a match (in each pattern used here group 1 takes part in every match).\<close>

definition group1 :: "string \<Rightarrow> nat \<times> nat \<times> caps \<Rightarrow> string" where
  "group1 s m = (case group_text s (snd (snd m)) 1 of None \<Rightarrow> [] | Some g \<Rightarrow> g)"

definition get_int :: "string \<Rightarrow> int option" where
  "get_int text =
     (if text = [] then None
      else (let t = filter (\<lambda>c. c \<noteq> CHR '','') text in
            case re_search False INT_RX t of
              None \<Rightarrow> None
            | Some m \<Rightarrow> Some (int_of_dec (group1 t m))))"

definition extract_mood_from_text :: "string \<Rightarrow> string option" where
  "extract_mood_from_text text = (let low = lower text in
     if re_found False TIRED_RX low then Some ''tired''
     else if list_ex (\<lambda>w. re_found False (word_rx w) low)
               [''fatigued'', ''exhausted'', ''weary'', ''sleepy''] then Some ''tired''
     else if list_ex (\<lambda>w. re_found False (word_rx w) low)
               [''sad'', ''down'', ''low'', ''depressed'', ''blue'', ''stressed'', ''anxious'',
                ''worried''] then Some ''low''
     else if re_found False OKAY_RX low \<or> re_found False (word_rx ''fine'') low
               \<or> re_found False (word_rx ''neutral'') low then Some ''okay''
     else if list_ex (\<lambda>w. re_found False (word_rx w) low)
               [''good'', ''great'', ''happy'', ''well'', ''better''] then Some ''good''
     else None)"

definition extract_slot_kv :: "string \<Rightarrow> pydict" where
  "extract_slot_kv text =
     (let out0 = (case re_search True MOOD_KV_RX text of
                    Some m \<Rightarrow> [''mood'' \<mapsto> PStr (lower (group1 text m))]
                  | None \<Rightarrow>
                      (case extract_mood_from_text text of
                         Some g \<Rightarrow> [''mood'' \<mapsto> PStr g]
                       | None \<Rightarrow> Map.empty));
          out1 = (case re_search True ENERGY_KV_RX text of
                    Some m \<Rightarrow> out0(''energy'' \<mapsto> PInt (max 0 (min 10 (int_of_dec (group1 text m)))))
                  | None \<Rightarrow> out0);
          m3 = (case re_search True STEPS_KV_RX text of
                  Some m \<Rightarrow> Some m
                | None \<Rightarrow> re_search True NUM_STEPS_RX text)
      in case m3 of
           Some m \<Rightarrow> (let v = int_of_dec (group1 text m) in
                      if v \<ge> 0 then out1(''steps'' \<mapsto> PInt v) else out1)
         | None \<Rightarrow> out1)"

subsection \<open>Intent classification\<close>

definition classify_intent :: "state \<Rightarrow> state" where
  "classify_intent st =
     (let txt = last_user_text st;
          low = lower txt;
          aw = (case awaiting st of None \<Rightarrow> [] | Some a \<Rightarrow> a)
      in
      if aw = ''confirm_checkin'' then st\<lparr>label := Some ''handle_checkin_confirmation''\<rparr>
      else if aw = ''prisma'' then st\<lparr>label := Some ''continue_prisma''\<rparr>
      else if aw = ''post_checkin'' then st\<lparr>label := Some ''handle_post_checkin''\<rparr>
      else if aw = ''after_plan'' then st\<lparr>label := Some ''handle_after_plan''\<rparr>
      else if startswith aw ''slot:'' then st\<lparr>label := Some ''continue_slot''\<rparr>
      else if re_found True CHECKIN_RX low then st\<lparr>label := Some ''start_prisma''\<rparr>
      else if re_found True MOTIVATE_RX low
              \<or> strip low \<in> set [''motivation'', ''motivate'', ''pep'', ''pep talk'']
           then st\<lparr>label := Some ''motivate''\<rparr>
      else if list_ex (contains low) [''hi'', ''hello'', ''hey'']
              \<or> strip low \<in> set ['''', ''start'', ''begin'']
           then st\<lparr>label := Some ''greet_and_offer_checkin''\<rparr>
      else if list_ex (contains low) [''mood'', ''energy'', ''steps'']
              \<or> re_fullmatch False NUM_ONLY_SP_RX low
              \<or> extract_mood_from_text txt \<noteq> None
           then st\<lparr>label := Some ''check_slots''\<rparr>
      else st\<lparr>label := Some ''maybe_compute_frailty''\<rparr>)"

definition policy_router :: "state \<Rightarrow> string" where
  "policy_router st = (case label st of None \<Rightarrow> ''maybe_compute_frailty'' | Some l \<Rightarrow> l)"

subsection \<open>Library operations on values\<close>

text \<open>Sequencing of computations that may raise.\<close>

definition ebind :: "'e + 'a \<Rightarrow> ('a \<Rightarrow> 'e + 'b) \<Rightarrow> 'e + 'b" where
  "ebind m f = (case m of Inl e \<Rightarrow> Inl e | Inr x \<Rightarrow> f x)"

text \<open>\<open>xs[i]\<close>: a negative index counts from the end, an index out of range raises.\<close>

definition py_index :: "'a list \<Rightarrow> int \<Rightarrow> py_error + 'a" where
  "py_index xs i =
     (if 0 \<le> i \<and> i < int (length xs) then Inr (xs ! nat i)
      else if i < 0 \<and> - int (length xs) \<le> i then Inr (xs ! nat (int (length xs) + i))
      else Inl IndexError)"

text \<open>\<open>repr\<close> of a text: quoted, with the escapes Python writes on this range.\<close>

definition hex_digit :: "nat \<Rightarrow> char" where
  "hex_digit n = (if n < 10 then char_of (48 + n) else char_of (87 + n))"

definition repr_char :: "char \<Rightarrow> char \<Rightarrow> string" where
  "repr_char q c = (let n = (of_char c :: nat) in
     if n = 92 then [c, c]
     else if c = q then [char_of (92 :: nat), c]
     else if n = 9 then [char_of (92 :: nat), CHR ''t'']
     else if n = 10 then [char_of (92 :: nat), CHR ''n'']
     else if n = 13 then [char_of (92 :: nat), CHR ''r'']
     else if n < 32 \<or> (127 \<le> n \<and> n \<le> 160) \<or> n = 173
       then [char_of (92 :: nat), CHR ''x'', hex_digit (n div 16), hex_digit (n mod 16)]
     else [c])"

definition repr_str :: "string \<Rightarrow> string" where
  "repr_str s =
     (let q = (if char_of (39 :: nat) \<in> set s \<and> char_of (34 :: nat) \<notin> set s
               then char_of (34 :: nat) else char_of (39 :: nat))
      in q # concat (map (repr_char q) s) @ [q])"

fun join_with :: "string \<Rightarrow> string list \<Rightarrow> string" where
  "join_with sep [] = []"
| "join_with sep [x] = x"
| "join_with sep (x # y # ys) = x @ sep @ join_with sep (y # ys)"

fun py_repr :: "pyval \<Rightarrow> string" where
  "py_repr PNone = ''None''"
| "py_repr (PBool b) = (if b then ''True'' else ''False'')"
| "py_repr (PInt i) = dec_int i"
| "py_repr (PStr s) = repr_str s"
| "py_repr (PList xs) = ''['' @ join_with '', '' (map py_repr xs) @ '']''"
| "py_repr (PDict kvs) =
     ''{'' @ join_with '', '' (map (\<lambda>kv. repr_str (fst kv) @ '': '' @ py_repr (snd kv)) kvs) @ ''}''"

definition py_str :: "pyval \<Rightarrow> string" where
  "py_str v = (case v of PStr s \<Rightarrow> s | _ \<Rightarrow> py_repr v)"

text \<open>
  \<open>int(s)\<close> for a text: surrounding white space, an optional sign, then digits, single
  underscores allowed between digits; anything else raises \<open>ValueError\<close>.
\<close>

definition digits_ok :: "string \<Rightarrow> bool" where
  "digits_ok ds =
     (ds \<noteq> [] \<and> list_all (\<lambda>c. is_digit c \<or> c = CHR ''_'') ds
      \<and> is_digit (hd ds) \<and> is_digit (last ds) \<and> \<not> contains ds ''__'')"

definition py_int_str :: "string \<Rightarrow> py_error + int" where
  "py_int_str s =
     (let t = strip s;
          neg = (t \<noteq> [] \<and> hd t = CHR ''-'');
          ds = (if t \<noteq> [] \<and> (hd t = CHR ''-'' \<or> hd t = CHR ''+'') then tl t else t)
      in if digits_ok ds
         then (let n = digits_value (filter (\<lambda>c. c \<noteq> CHR ''_'') ds)
               in Inr (if neg then - n else n))
         else Inl ValueError)"

text \<open>\<open>int(x)\<close> for a value: a list, a dictionary and \<open>None\<close> raise \<open>TypeError\<close>.\<close>

fun py_int :: "pyval \<Rightarrow> py_error + int" where
  "py_int (PInt i) = Inr i"
| "py_int (PBool b) = Inr (if b then 1 else 0)"
| "py_int (PStr s) = py_int_str s"
| "py_int PNone = Inl TypeError"
| "py_int (PList xs) = Inl TypeError"
| "py_int (PDict kvs) = Inl TypeError"

text \<open>\<open>x or d\<close> and \<open>d.get(k, default)\<close>.\<close>

definition py_or :: "pyval \<Rightarrow> pyval \<Rightarrow> pyval" where
  "py_or x d = (if py_truthy x then x else d)"

definition dict_get :: "pydict \<Rightarrow> string \<Rightarrow> pyval \<Rightarrow> pyval" where
  "dict_get d k dflt = (case d k of None \<Rightarrow> dflt | Some v \<Rightarrow> v)"

text \<open>\<open>s.split()\<close>: the maximal runs of characters that are not white space.\<close>

function split_ws :: "string \<Rightarrow> string list" where
  "split_ws s =
     (let t = dropWhile is_space s in
      if t = [] then []
      else takeWhile (\<lambda>c. \<not> is_space c) t # split_ws (dropWhile (\<lambda>c. \<not> is_space c) t))"
  by pat_completeness auto
termination
proof (relation "measure length")
  show "wf (measure length)" by simp
next
  fix s t :: string
  assume t: "t = dropWhile is_space s" and ne: "t \<noteq> []"
  from ne obtain c cs where c: "t = c # cs" by (cases t) simp_all
  have "dropWhile is_space s \<noteq> []"
    using ne t by blast
  then have "\<not> is_space (hd (dropWhile is_space s))"
    by (rule hd_dropWhile)
  then have "\<not> is_space c"
    using c t by (metis list.sel(1))
  then have "dropWhile (\<lambda>c. \<not> is_space c) t = dropWhile (\<lambda>c. \<not> is_space c) cs"
    using c by simp
  moreover have "length (dropWhile (\<lambda>c. \<not> is_space c) cs) \<le> length cs"
    by (rule length_dropWhile_le)
  moreover have "length t \<le> length s"
    using t by (simp add: length_dropWhile_le)
  ultimately show "(dropWhile (\<lambda>c. \<not> is_space c) t, s) \<in> measure length"
    using c by simp
qed

declare split_ws.simps [simp del]

text \<open>\<open>awaiting.replace("slot:", "")\<close>: every occurrence of \<open>slot:\<close> removed, left to right.\<close>

fun remove_slot_marks :: "string \<Rightarrow> string" where
  "remove_slot_marks [] = []"
| "remove_slot_marks (c # cs) =
     (if startswith (c # cs) ''slot:'' then remove_slot_marks (drop 4 cs)
      else c # remove_slot_marks cs)"

subsection \<open>Greeting and check-in\<close>

definition greet_and_offer_checkin :: "state \<Rightarrow> state" where
  "greet_and_offer_checkin st = st\<lparr>awaiting := Some ''confirm_checkin'',
     reply := Some ''Hi! Want to do your daily check-in now? It is 7 quick yes/no questions and takes about a minute.''\<rparr>"

definition start_prisma :: "state \<Rightarrow> state" where
  "start_prisma st = st\<lparr>prisma_answers := Map.empty, prisma_index := 0,
     awaiting := Some ''prisma'',
     reply := Some (''Great - daily check-in Q1: '' @ qtext (PRISMA_QUESTIONS ! 0))\<rparr>"

definition handle_checkin_confirmation :: "state \<Rightarrow> state" where
  "handle_checkin_confirmation st =
     (case yn (last_user_text st) of
        Some True \<Rightarrow> start_prisma st
      | Some False \<Rightarrow> st\<lparr>awaiting := None,
          reply := Some (''No worries. You can say '' @ [CHR 0x22] @ ''daily check-in''
                         @ [CHR 0x22] @ '' anytime. ''
                         @ ''If you like, tell me your mood, energy (0-10), or steps so far.'')\<rparr>
      | None \<Rightarrow> st\<lparr>awaiting := Some ''confirm_checkin'',
          reply := Some ''Would you like to start your daily check-in now? (yes/no)''\<rparr>)"

subsection \<open>Slot filling\<close>

definition extract_light_entities :: "state \<Rightarrow> state" where
  "extract_light_entities st = st\<lparr>slots := slots st ++ extract_slot_kv (last_user_text st)\<rparr>"

definition ensure_questions :: "(string \<times> string) list" where
  "ensure_questions = [
     (''mood'', ''How's your mood today (e.g., good/okay/low)?''),
     (''energy'', ''What's your energy level 0-10?''),
     (''steps'', ''How many steps have you taken so far today?'')]"

definition collect_questions :: "(string \<times> string) list" where
  "collect_questions = [
     (''mood'', ''Got it. What's your mood today?''),
     (''energy'', ''Thanks. What's your energy level 0-10?''),
     (''steps'', ''Thanks. How many steps have you taken so far today?'')]"

text \<open>
  The loop both slot nodes end with: ask for the first required slot that is missing
  (the question looked up in a table, a \<open>KeyError\<close> if the slot has none), or clear
  \<open>awaiting\<close> when none is missing.
\<close>

definition ask_first_missing :: "(string \<times> string) list \<Rightarrow> state \<Rightarrow> py_error + state" where
  "ask_first_missing table st =
     (case find (\<lambda>k. slots st k = None) (required_slots st) of
        None \<Rightarrow> Inr (st\<lparr>awaiting := None\<rparr>)
      | Some k \<Rightarrow>
          (case map_of table k of
             None \<Rightarrow> Inl KeyError
           | Some q \<Rightarrow> Inr (st\<lparr>awaiting := Some (''slot:'' @ k), reply := Some q\<rparr>)))"

definition ensure_slots :: "state \<Rightarrow> py_error + state" where
  "ensure_slots st = ask_first_missing ensure_questions st"

definition collect_slot_answer :: "state \<Rightarrow> py_error + state" where
  "collect_slot_answer st =
     (let user = last_user_text st;
          aw = (case awaiting st of None \<Rightarrow> [] | Some a \<Rightarrow> a);
          slot_name = (if startswith aw ''slot:'' then remove_slot_marks aw else [])
      in
      ebind
        (if slot_name = [] then Inr st
         else if slot_name = ''mood'' then
           (case extract_mood_from_text user of
              Some m \<Rightarrow> Inr (st\<lparr>slots := (slots st)(''mood'' \<mapsto> PStr m)\<rparr>)
            | None \<Rightarrow>
                ebind (py_index (split_ws (strip user)) 0)
                  (\<lambda>w. Inr (st\<lparr>slots := (slots st)(''mood'' \<mapsto> PStr (lower w))\<rparr>)))
         else if slot_name = ''energy'' then
           (case get_int user of
              Some v \<Rightarrow> Inr (st\<lparr>slots := (slots st)(''energy'' \<mapsto> PInt (max 0 (min 10 v)))\<rparr>)
            | None \<Rightarrow> Inr st)
         else if slot_name = ''steps'' then
           (case get_int user of
              Some v \<Rightarrow> if v \<ge> 0 then Inr (st\<lparr>slots := (slots st)(''steps'' \<mapsto> PInt v)\<rparr>)
                        else Inr st
            | None \<Rightarrow> Inr st)
         else Inr st)
        (ask_first_missing collect_questions))"

definition check_slots :: "state \<Rightarrow> py_error + state" where
  "check_slots st = ensure_slots (extract_light_entities st)"

subsection \<open>The check-in wizard\<close>

definition continue_prisma :: "state \<Rightarrow> py_error + state" where
  "continue_prisma st =
     (let user = last_user_text st;
          n = int (length PRISMA_QUESTIONS)
      in
      ebind
        (if prisma_index st < n then
           ebind (py_index PRISMA_QUESTIONS (prisma_index st))
             (\<lambda>q. case yn user of
                     None \<Rightarrow> Inr st
                   | Some b \<Rightarrow> Inr (st\<lparr>prisma_answers := (prisma_answers st)(qkey q \<mapsto> PBool b),
                                       prisma_index := prisma_index st + 1\<rparr>))
         else Inr st)
        (\<lambda>st1.
           if prisma_index st1 < n then
             ebind (py_index PRISMA_QUESTIONS (prisma_index st1))
               (\<lambda>q. Inr (st1\<lparr>awaiting := Some ''prisma'',
                     reply := Some (''Q'' @ dec_int (prisma_index st1 + 1) @ '': '' @ qtext q)\<rparr>))
           else
             ebind (prisma7_score (prisma_answers st1))
               (\<lambda>sc. Inr (st1\<lparr>awaiting := Some ''post_checkin'', frailty_score := sc,
                     reply := Some (''All done - your daily check-in score is ''
                       @ (case sc of None \<Rightarrow> ''None'' | Some s \<Rightarrow> dec_int s)
                       @ ''. Would you like me to draft a quick plan for today, ''
                       @ ''or would you prefer to log mood, energy, or steps first?'')\<rparr>))))"

subsection \<open>Motivation\<close>

definition motivate :: "state \<Rightarrow> py_error + state" where
  "motivate st =
     (let mood = lower (py_str (dict_get (slots st) ''mood'' (PStr ''okay''))) in
      ebind (py_int (py_or (dict_get (slots st) ''energy'' (PInt 5)) (PInt 5))) (\<lambda>energy.
      ebind (py_int (py_or (dict_get (slots st) ''steps'' (PInt 0)) (PInt 0))) (\<lambda>steps.
        let score = frailty_score st;
            risk = (case score of
                      None \<Rightarrow> ''moderate''
                    | Some s \<Rightarrow> if s \<le> 2 then ''low''
                               else if s \<noteq> 0 \<and> s \<ge> 5 then ''high'' else ''moderate'');
            base_bump = (if risk = ''high'' then (if energy < 5 then 300 else 600)
                         else (if energy < 5 then 500 else 1000));
            walk_target = min 7000 (max 1000 (steps + base_bump));
            to_go = max 0 (walk_target - steps);
            line1 = (if mood \<in> set [''low'', ''down'', ''tired''] \<or> energy \<le> 3
                     then ''Small steps count. Two minutes is enough to start.''
                     else ''You got this. Small wins add up fast.'')
        in Inr (st\<lparr>reply := Some (join_with [CHR 0x0A] [
             line1,
             ''Micro-goal: about '' @ dec_int to_go @ '' steps would meet today's gentle target.'',
             ''Tip: stand, roll shoulders, and walk to the kitchen and back. Then decide the next tiny step.'',
             ''Hydrate and breathe: 4-4-4-4 for one minute.''])\<rparr>))))"

subsection \<open>Frailty score on the planning path\<close>

text \<open>\<open>len(state.get("prisma_answers", {})) == 7\<close>: the dictionary has exactly seven keys.\<close>

definition maybe_compute_frailty :: "state \<Rightarrow> py_error + state" where
  "maybe_compute_frailty st =
     (if frailty_score st = None \<and> card (dom (prisma_answers st)) = 7
      then ebind (prisma7_score (prisma_answers st)) (\<lambda>sc. Inr (st\<lparr>frailty_score := sc\<rparr>))
      else Inr st)"

section \<open>The routine planner (app/tools/routine.py)\<close>

subsection \<open>Floating point, as far as the planner uses it\<close>

text \<open>
  A finite double is the rational number it denotes; infinities and NaN, which only
  ever reach \<open>int()\<close> here and make it raise, are one value. \<open>round_double\<close> is the
  rounding every float operation ends with: the nearest number with a 53-bit significand
  (exponent of the last place at least \<open>-1074\<close>), ties to the even significand, and
  overflow beyond the largest double.
\<close>

datatype pyfloat = Fin rat | NonFinite

function bitlen :: "int \<Rightarrow> nat" where
  "bitlen n = (if n \<le> 0 then 0 else Suc (bitlen (n div 2)))"
  by pat_completeness auto
termination
  by (relation "measure nat") auto

declare bitlen.simps [simp del]

definition pow2 :: "int \<Rightarrow> rat" where
  "pow2 k = (if k \<ge> 0 then 2 ^ nat k else 1 / 2 ^ nat (- k))"

text \<open>Round to the nearest integer, ties to even (also Python's \<open>round\<close> on a float).\<close>

definition round_half_even :: "rat \<Rightarrow> int" where
  "round_half_even x =
     (let f = \<lfloor>x\<rfloor>; d = x - of_int f
      in if d < 1 / 2 then f else if d > 1 / 2 then f + 1 else if even f then f else f + 1)"

text \<open>\<open>\<lfloor>log\<^sub>2 x\<rfloor>\<close> for a positive rational.\<close>

definition ilog2 :: "rat \<Rightarrow> int" where
  "ilog2 x =
     (let (p, q) = quotient_of x;
          d = int (bitlen p) - int (bitlen q)
      in if pow2 d \<le> x then d else d - 1)"

definition round_double :: "rat \<Rightarrow> pyfloat" where
  "round_double x =
     (if x = 0 then Fin 0
      else (let a = \<bar>x\<bar>;
                e = max (ilog2 a - 52) (- 1074);
                m = round_half_even (a / pow2 e);
                r = of_int m * pow2 e
            in if r \<ge> pow2 1024 then NonFinite
               else Fin (if x < 0 then - r else r)))"

definition float_mul :: "pyfloat \<Rightarrow> pyfloat \<Rightarrow> pyfloat" where
  "float_mul a b =
     (case (a, b) of (Fin x, Fin y) \<Rightarrow> round_double (x * y) | _ \<Rightarrow> NonFinite)"

text \<open>\<open>int(f)\<close>: truncation towards zero; it raises on an infinity or NaN.\<close>

definition int_of_float :: "pyfloat \<Rightarrow> int option" where
  "int_of_float f =
     (case f of
        NonFinite \<Rightarrow> None
      | Fin x \<Rightarrow> Some (if x \<ge> 0 then \<lfloor>x\<rfloor> else - \<lfloor>- x\<rfloor>))"

text \<open>
  \<open>float(s)\<close> for a text: white space around, an optional sign, then \<open>inf\<close>, \<open>infinity\<close>
  or \<open>nan\<close> in any case, or a decimal number: digits with an optional point and an
  optional exponent, single underscores allowed between digits. Anything else raises
  (\<open>None\<close>).
\<close>

definition digits_val :: "string \<Rightarrow> int" where
  "digits_val ds = digits_value (filter (\<lambda>c. c \<noteq> CHR ''_'') ds)"

definition digits_count :: "string \<Rightarrow> nat" where
  "digits_count ds = length (filter (\<lambda>c. c \<noteq> CHR ''_'') ds)"

definition parse_exponent :: "string \<Rightarrow> int option" where
  "parse_exponent t =
     (let ds = (if t \<noteq> [] \<and> (hd t = CHR ''-'' \<or> hd t = CHR ''+'') then tl t else t)
      in if digits_ok ds
         then Some (if t \<noteq> [] \<and> hd t = CHR ''-'' then - digits_val ds else digits_val ds)
         else None)"

definition parse_mantissa :: "string \<Rightarrow> (int \<times> nat) option" where
  "parse_mantissa t =
     (let ip = takeWhile (\<lambda>c. c \<noteq> CHR ''.'') t;
          rest = dropWhile (\<lambda>c. c \<noteq> CHR ''.'') t
      in if rest = [] then (if digits_ok ip then Some (digits_val ip, 0) else None)
         else (let fp = tl rest in
               if (ip = [] \<or> digits_ok ip) \<and> (fp = [] \<or> digits_ok fp) \<and> \<not> (ip = [] \<and> fp = [])
               then Some (digits_val (ip @ fp), digits_count fp)
               else None))"

definition pow10 :: "int \<Rightarrow> rat" where
  "pow10 k = (if k \<ge> 0 then 10 ^ nat k else 1 / 10 ^ nat (- k))"

definition parse_decimal :: "string \<Rightarrow> rat option" where
  "parse_decimal t =
     (let is_e = (\<lambda>c. c = CHR ''e'' \<or> c = CHR ''E'');
          mant = takeWhile (\<lambda>c. \<not> is_e c) t;
          rest = dropWhile (\<lambda>c. \<not> is_e c) t
      in case parse_mantissa mant of
           None \<Rightarrow> None
         | Some (m, k) \<Rightarrow>
             if rest = [] then Some (of_int m * pow10 (- int k))
             else (case parse_exponent (tl rest) of
                     None \<Rightarrow> None
                   | Some e \<Rightarrow> Some (of_int m * pow10 (e - int k))))"

definition float_of_text :: "string \<Rightarrow> pyfloat option" where
  "float_of_text s =
     (let t = strip s;
          neg = (t \<noteq> [] \<and> hd t = CHR ''-'');
          body = (if t \<noteq> [] \<and> (hd t = CHR ''-'' \<or> hd t = CHR ''+'') then tl t else t)
      in if lower body \<in> set [''inf'', ''infinity'', ''nan''] then Some NonFinite
         else (case parse_decimal body of
                 None \<Rightarrow> None
               | Some r \<Rightarrow> Some (round_double (if neg then - r else r))))"

section \<open>Properties of the scorer\<close>

lemma normalize_answers_None_iff:
  "normalize_answers qs a nm = None \<longleftrightarrow> next_unanswered qs a \<noteq> None"
proof (induction qs arbitrary: nm)
  case Nil
  then show ?case by simp
next
  case (Cons q qs)
  show ?case
  proof (cases "a (qkey q)")
    case None
    then show ?thesis by simp
  next
    case (Some v)
    then show ?thesis using Cons.IH by (cases "normalize_bool v") simp_all
  qed
qed

lemma normalize_answers_dom:
  "normalize_answers qs a nm = Some nm' \<Longrightarrow> k \<in> dom nm \<or> k \<in> qkey ` set qs \<Longrightarrow> k \<in> dom nm'"
proof (induction qs arbitrary: nm)
  case Nil
  then show ?case by simp
next
  case (Cons q qs)
  from Cons.prems(1) obtain v b where v: "a (qkey q) = Some v" and b: "normalize_bool v = Some b"
    and rest: "normalize_answers qs a (nm(qkey q \<mapsto> b)) = Some nm'"
    by (auto split: option.splits)
  from Cons.prems(2) have "k \<in> dom (nm(qkey q \<mapsto> b)) \<or> k \<in> qkey ` set qs"
    by auto
  with Cons.IH [OF rest] show ?case .
qed

lemma score_answers_total:
  "\<forall>q \<in> set qs. nm (qkey q) \<noteq> None \<Longrightarrow> \<exists>s. score_answers qs nm s0 = Inr s"
proof (induction qs arbitrary: s0)
  case Nil
  then show ?case by simp
next
  case (Cons q qs)
  then obtain v where "nm (qkey q) = Some v" by auto
  moreover have "\<forall>q \<in> set qs. nm (qkey q) \<noteq> None" using Cons.prems by simp
  ultimately show ?case using Cons.IH by simp
qed

text \<open>
  Claim C10. \<open>prisma7_score\<close> returns a number exactly when
  \<open>prisma7_next_unanswered\<close> returns \<open>None\<close>: scorer and wizard driver agree on when the
  answer set is complete, a key counting as answered only if its value normalizes to a
  boolean.
\<close>

theorem prisma7_score_numeric_iff_no_unanswered: "(\<exists>n. prisma7_score a = Inr (Some n)) \<longleftrightarrow> prisma7_next_unanswered a = None"
proof (cases "normalize_answers PRISMA_QUESTIONS a Map.empty")
  case None
  then have "next_unanswered PRISMA_QUESTIONS a \<noteq> None"
    using normalize_answers_None_iff [of PRISMA_QUESTIONS a Map.empty] by blast
  moreover have "prisma7_score a = Inr None"
    using None by (simp add: prisma7_score_def)
  ultimately show ?thesis
    by (simp add: prisma7_next_unanswered_def)
next
  case (Some nm)
  then have "\<forall>q \<in> set PRISMA_QUESTIONS. nm (qkey q) \<noteq> None"
    using normalize_answers_dom [of PRISMA_QUESTIONS a Map.empty nm] by blast
  then obtain s where "score_answers PRISMA_QUESTIONS nm 0 = Inr s"
    using score_answers_total by blast
  with Some have "prisma7_score a = Inr (Some s)"
    by (simp add: prisma7_score_def)
  moreover have "next_unanswered PRISMA_QUESTIONS a = None"
    using Some normalize_answers_None_iff [of PRISMA_QUESTIONS a Map.empty]
    by (cases "next_unanswered PRISMA_QUESTIONS a") simp_all
  ultimately show ?thesis
    by (simp add: prisma7_next_unanswered_def)
qed

lemma prisma7_score_closed_form:
  assumes "a ''over_85'' = Some (PBool b1)" "a ''male'' = Some (PBool b2)"
    "a ''limit_activities'' = Some (PBool b3)" "a ''need_help_regularly'' = Some (PBool b4)"
    "a ''stay_home'' = Some (PBool b5)" "a ''someone_close'' = Some (PBool b6)"
    "a ''use_aid'' = Some (PBool b7)"
  shows "prisma7_score a = Inr (Some (of_bool b1 + of_bool b2 + of_bool b3 + of_bool b4
           + of_bool b5 + of_bool (\<not> b6) + of_bool b7))"
  using assms by (simp add: prisma7_score_def PRISMA_QUESTIONS_def)

text \<open>
  Claim C1. On a complete answer set (each of the seven keys bound to a boolean)
  \<open>prisma7_score\<close> returns an integer between 0 and 7: one point for each of the six
  ordinary questions answered \<open>True\<close> and one point if \<open>someone_close\<close> is answered
  \<open>False\<close>. Negating only the \<open>someone_close\<close> answer moves the score by exactly one, up
  when the answer goes from \<open>True\<close> to \<open>False\<close>; negating only an ordinary answer moves it by
  exactly one the other way round. (The result is a function of the answers, so it is
  deterministic.)
\<close>

theorem prisma7_score_complete:
  assumes "\<forall>k \<in> set PRISMA_ORDER. \<exists>b. a k = Some (PBool b)"
  shows "\<exists>n. prisma7_score a = Inr (Some n) \<and> 0 \<le> n \<and> n \<le> 7
     \<and> n = (\<Sum>k\<leftarrow>[''over_85'', ''male'', ''limit_activities'', ''need_help_regularly'',
                   ''stay_home'', ''use_aid'']. if a k = Some (PBool True) then 1 else 0)
           + (if a ''someone_close'' = Some (PBool False) then 1 else 0)
     \<and> (\<forall>b. a ''someone_close'' = Some (PBool b) \<longrightarrow>
           prisma7_score (a(''someone_close'' \<mapsto> PBool (\<not> b)))
             = Inr (Some (if b then n + 1 else n - 1)))
     \<and> (\<forall>k \<in> set [''over_85'', ''male'', ''limit_activities'', ''need_help_regularly'',
                     ''stay_home'', ''use_aid''].
          \<forall>b. a k = Some (PBool b) \<longrightarrow>
           prisma7_score (a(k \<mapsto> PBool (\<not> b))) = Inr (Some (if b then n - 1 else n + 1)))"
proof -
  from assms obtain b1 b2 b3 b4 b5 b6 b7 where
    b: "a ''over_85'' = Some (PBool b1)" "a ''male'' = Some (PBool b2)"
    "a ''limit_activities'' = Some (PBool b3)" "a ''need_help_regularly'' = Some (PBool b4)"
    "a ''stay_home'' = Some (PBool b5)" "a ''someone_close'' = Some (PBool b6)"
    "a ''use_aid'' = Some (PBool b7)"
    unfolding PRISMA_ORDER_def PRISMA_QUESTIONS_def by auto
  let ?n = "of_bool b1 + of_bool b2 + of_bool b3 + of_bool b4
           + of_bool b5 + of_bool (\<not> b6) + of_bool b7 :: int"
  have s: "prisma7_score a = Inr (Some ?n)"
    using b by (rule prisma7_score_closed_form)
  have r: "0 \<le> ?n \<and> ?n \<le> 7" by (simp add: of_bool_def)
  have c: "?n = (\<Sum>k\<leftarrow>[''over_85'', ''male'', ''limit_activities'', ''need_help_regularly'',
                   ''stay_home'', ''use_aid'']. if a k = Some (PBool True) then 1 else 0)
           + (if a ''someone_close'' = Some (PBool False) then 1 else 0)"
    using b by (simp add: of_bool_def)
  have f6: "prisma7_score (a(''someone_close'' \<mapsto> PBool (\<not> b6)))
      = Inr (Some (if b6 then ?n + 1 else ?n - 1))"
    using b by (subst prisma7_score_closed_form [where ?b1.0 = b1 and ?b2.0 = b2 and ?b3.0 = b3
        and ?b4.0 = b4 and ?b5.0 = b5 and ?b6.0 = "\<not> b6" and ?b7.0 = b7]) simp_all
  have f1: "prisma7_score (a(''over_85'' \<mapsto> PBool (\<not> b1)))
      = Inr (Some (if b1 then ?n - 1 else ?n + 1))"
    using b by (subst prisma7_score_closed_form [where ?b1.0 = "\<not> b1" and ?b2.0 = b2 and ?b3.0 = b3
        and ?b4.0 = b4 and ?b5.0 = b5 and ?b6.0 = b6 and ?b7.0 = b7]) simp_all
  have f2: "prisma7_score (a(''male'' \<mapsto> PBool (\<not> b2)))
      = Inr (Some (if b2 then ?n - 1 else ?n + 1))"
    using b by (subst prisma7_score_closed_form [where ?b1.0 = b1 and ?b2.0 = "\<not> b2" and ?b3.0 = b3
        and ?b4.0 = b4 and ?b5.0 = b5 and ?b6.0 = b6 and ?b7.0 = b7]) simp_all
  have f3: "prisma7_score (a(''limit_activities'' \<mapsto> PBool (\<not> b3)))
      = Inr (Some (if b3 then ?n - 1 else ?n + 1))"
    using b by (subst prisma7_score_closed_form [where ?b1.0 = b1 and ?b2.0 = b2 and ?b3.0 = "\<not> b3"
        and ?b4.0 = b4 and ?b5.0 = b5 and ?b6.0 = b6 and ?b7.0 = b7]) simp_all
  have f4: "prisma7_score (a(''need_help_regularly'' \<mapsto> PBool (\<not> b4)))
      = Inr (Some (if b4 then ?n - 1 else ?n + 1))"
    using b by (subst prisma7_score_closed_form [where ?b1.0 = b1 and ?b2.0 = b2 and ?b3.0 = b3
        and ?b4.0 = "\<not> b4" and ?b5.0 = b5 and ?b6.0 = b6 and ?b7.0 = b7]) simp_all
  have f5: "prisma7_score (a(''stay_home'' \<mapsto> PBool (\<not> b5)))
      = Inr (Some (if b5 then ?n - 1 else ?n + 1))"
    using b by (subst prisma7_score_closed_form [where ?b1.0 = b1 and ?b2.0 = b2 and ?b3.0 = b3
        and ?b4.0 = b4 and ?b5.0 = "\<not> b5" and ?b6.0 = b6 and ?b7.0 = b7]) simp_all
  have f7: "prisma7_score (a(''use_aid'' \<mapsto> PBool (\<not> b7)))
      = Inr (Some (if b7 then ?n - 1 else ?n + 1))"
    using b by (subst prisma7_score_closed_form [where ?b1.0 = b1 and ?b2.0 = b2 and ?b3.0 = b3
        and ?b4.0 = b4 and ?b5.0 = b5 and ?b6.0 = b6 and ?b7.0 = "\<not> b7"]) simp_all
  have fn: "\<forall>k \<in> set [''over_85'', ''male'', ''limit_activities'', ''need_help_regularly'',
                     ''stay_home'', ''use_aid''].
      \<forall>b. a k = Some (PBool b) \<longrightarrow>
        prisma7_score (a(k \<mapsto> PBool (\<not> b))) = Inr (Some (if b then ?n - 1 else ?n + 1))"
    using b f1 f2 f3 f4 f5 f7 by simp
  have f6': "\<forall>b. a ''someone_close'' = Some (PBool b) \<longrightarrow>
      prisma7_score (a(''someone_close'' \<mapsto> PBool (\<not> b)))
        = Inr (Some (if b then ?n + 1 else ?n - 1))"
    using b f6 by simp
  show ?thesis using s r c f6' fn by blast
qed

theorem prisma7_score_complete_witness:
  "prisma7_score (map_of [(''over_85'', PBool False), (''male'', PBool True),
              (''limit_activities'', PBool True), (''need_help_regularly'', PBool False),
              (''stay_home'', PBool False), (''someone_close'', PBool False),
              (''use_aid'', PBool False)]) = Inr (Some 3)"
proof -
  let ?a = "map_of [(''over_85'', PBool False), (''male'', PBool True),
              (''limit_activities'', PBool True), (''need_help_regularly'', PBool False),
              (''stay_home'', PBool False), (''someone_close'', PBool False),
              (''use_aid'', PBool False)]"
  have h: "\<forall>k \<in> set PRISMA_ORDER. \<exists>b. ?a k = Some (PBool b)"
    by (auto simp add: PRISMA_ORDER_def PRISMA_QUESTIONS_def)
  from prisma7_score_complete [OF h] obtain n where
    "prisma7_score ?a = Inr (Some n)"
    "n = (\<Sum>k\<leftarrow>[''over_85'', ''male'', ''limit_activities'', ''need_help_regularly'',
                   ''stay_home'', ''use_aid'']. if ?a k = Some (PBool True) then 1 else 0)
           + (if ?a ''someone_close'' = Some (PBool False) then 1 else 0)"
    by blast
  then show ?thesis by simp
qed

section \<open>Incomplete answer sets\<close>

lemma normalize_answers_incomplete:
  assumes "q \<in> set qs"
    and "a (qkey q) = None \<or> (\<exists>v. a (qkey q) = Some v \<and> normalize_bool v = None)"
  shows "normalize_answers qs a nm = None"
  using assms
proof (induction qs arbitrary: nm)
  case Nil
  then show ?case by simp
next
  case (Cons p ps)
  show ?case
  proof (cases "a (qkey p)")
    case None
    then show ?thesis by simp
  next
    case (Some v)
    show ?thesis
    proof (cases "normalize_bool v")
      case None
      with Some show ?thesis by simp
    next
      case (Some b)
      with \<open>a (qkey p) = Some v\<close> Cons.prems have "q \<in> set ps" by auto
      with Cons.IH Cons.prems(2) have "normalize_answers ps a (nm(qkey p \<mapsto> b)) = None"
        by blast
      with Some \<open>a (qkey p) = Some v\<close> show ?thesis by simp
    qed
  qed
qed

text \<open>
  Claim C6, as stated, fails on the second variant of the scorer: with every key missing
  it returns the number 0 (band \<open>low\<close>), each missing key read as \<open>False\<close>.
\<close>

theorem lw_prisma7_score_guesses_default:
  "lw_prisma7_score Map.empty 3 = (0, ''low'')"
  by (simp add: lw_prisma7_score_def lw_get_def lw_KEYS_def)

text \<open>
  Claim C6, amended. In \<open>app/tools/frailty.py\<close>, whenever one of the seven keys is missing
  or bound to a value that does not normalize to a boolean, \<open>prisma7_score\<close> returns
  \<open>None\<close>, never a number. The scorer of the \<open>livewell-e\<close> backend is different by
  design: a missing key counts exactly as the answer \<open>False\<close>.
\<close>

theorem prisma7_score_incomplete:
  assumes "k \<in> set PRISMA_ORDER"
    and "a k = None \<or> (\<exists>v. a k = Some v \<and> normalize_bool v = None)"
  shows "prisma7_score a = Inr None
         \<and> (inputs j = None \<longrightarrow>
              lw_prisma7_score inputs t = lw_prisma7_score (inputs(j \<mapsto> PBool False)) t)"
proof -
  from assms(1) obtain q where q: "q \<in> set PRISMA_QUESTIONS" "qkey q = k"
    unfolding PRISMA_ORDER_def by auto
  with assms(2) have "normalize_answers PRISMA_QUESTIONS a Map.empty = None"
    using normalize_answers_incomplete [of q PRISMA_QUESTIONS a Map.empty] by simp
  then have 1: "prisma7_score a = Inr None"
    by (simp add: prisma7_score_def)
  have 2: "inputs j = None \<longrightarrow>
      lw_prisma7_score inputs t = lw_prisma7_score (inputs(j \<mapsto> PBool False)) t"
  proof
    assume j: "inputs j = None"
    have "lw_get (inputs(j \<mapsto> PBool False)) = lw_get inputs"
      using j by (auto simp add: lw_get_def fun_eq_iff)
    then show "lw_prisma7_score inputs t = lw_prisma7_score (inputs(j \<mapsto> PBool False)) t"
      by (simp add: lw_prisma7_score_def)
  qed
  from 1 2 show ?thesis by blast
qed

theorem prisma7_score_incomplete_witness:
  "''male'' \<in> set PRISMA_ORDER
   \<and> (map_of [(''over_85'', PBool True), (''male'', PStr ''maybe'')]) ''male''
        = Some (PStr ''maybe'')
   \<and> normalize_bool (PStr ''maybe'') = None
   \<and> prisma7_score (map_of [(''over_85'', PBool True), (''male'', PStr ''maybe'')]) = Inr None
   \<and> lw_prisma7_score Map.empty 3 = lw_prisma7_score [''male'' \<mapsto> PBool False] 3"
proof -
  let ?a = "map_of [(''over_85'', PBool True), (''male'', PStr ''maybe'')]"
  have k: "''male'' \<in> set PRISMA_ORDER"
    by (simp add: PRISMA_ORDER_def PRISMA_QUESTIONS_def)
  have n: "normalize_bool (PStr ''maybe'') = None"
    by (simp add: lower_def strip_def is_space_def lower_char_def)
  have v: "?a ''male'' = Some (PStr ''maybe'')" by simp
  have h: "?a ''male'' = None \<or> (\<exists>v. ?a ''male'' = Some v \<and> normalize_bool v = None)"
    using n by simp
  have e: "(Map.empty :: pydict) ''male'' = None" by simp
  from prisma7_score_incomplete [where k = "''male''" and a = ?a and inputs = Map.empty
      and j = "''male''" and t = 3, OF k h] k n v e
  show ?thesis by simp
qed

section \<open>Yes/no parsing: properties\<close>

lemma is_space_lower_char: "is_space (lower_char c) = is_space c"
  by (auto simp add: is_space_def lower_char_def Let_def)

lemma strip_lower: "strip (lower s) = lower (strip s)"
proof -
  have "is_space \<circ> lower_char = is_space"
    by (simp add: fun_eq_iff is_space_lower_char)
  then show ?thesis
    by (simp add: strip_def lower_def dropWhile_map rev_map)
qed

lemma search_from_found:
  "search_from ic r s i k \<noteq> None \<longleftrightarrow> (\<exists>j. i \<le> j \<and> j \<le> i + k \<and> rmatch ic r s (j, []) \<noteq> [])"
proof (induction k arbitrary: i)
  case 0
  then show ?case by (auto split: list.splits)
next
  case (Suc k)
  show ?case
  proof (cases "rmatch ic r s (i, [])")
    case Nil
    then have "search_from ic r s i (Suc k) = search_from ic r s (Suc i) k" by simp
    moreover have "(\<exists>j. i \<le> j \<and> j \<le> i + Suc k \<and> rmatch ic r s (j, []) \<noteq> [])
        \<longleftrightarrow> (\<exists>j. Suc i \<le> j \<and> j \<le> Suc i + k \<and> rmatch ic r s (j, []) \<noteq> [])"
      using Nil by (metis Suc_leI add_Suc_right add_Suc_shift le_eq_less_or_eq Suc_leD)
    ultimately show ?thesis using Suc.IH by simp
  next
    case (Cons x xs)
    then show ?thesis by (cases x) auto
  qed
qed

lemma lit_at_append:
  "lit_at False (a @ b) t i \<longleftrightarrow> lit_at False a t i \<and> lit_at False b t (i + length a)"
  by (auto simp add: lit_at_def take_add append_eq_conv_conj add.commute min_def)

lemma rmatch_y_es:
  "rmatch False rx_y_es t (i, []) \<noteq> [] \<longleftrightarrow>
     word_boundary t i \<and> lit_at False ''y'' t i \<and>
     (lit_at False ''es'' t (Suc i) \<and> word_boundary t (Suc (Suc (Suc i))) \<or> word_boundary t (Suc i))"
  by (auto simp add: rx_y_es_def)

lemma rmatch_n_o:
  "rmatch False rx_n_o t (i, []) \<noteq> [] \<longleftrightarrow>
     word_boundary t i \<and> lit_at False ''n'' t i \<and>
     (lit_at False ''o'' t (Suc i) \<and> word_boundary t (Suc (Suc i)) \<or> word_boundary t (Suc i))"
  by (auto simp add: rx_n_o_def)

lemma re_found_bounded:
  "re_found ic r t \<longleftrightarrow> (\<exists>j \<in> set [0..<Suc (length t)]. rmatch ic r t (j, []) \<noteq> [])"
proof -
  have "(\<exists>j \<in> set [0..<Suc (length t)]. rmatch ic r t (j, []) \<noteq> [])
      \<longleftrightarrow> (\<exists>j. 0 \<le> j \<and> j \<le> 0 + length t \<and> rmatch ic r t (j, []) \<noteq> [])"
    by (metis add_0 atLeastLessThan_iff less_Suc_eq_le set_upt)
  then show ?thesis
    using search_from_found [of ic r t 0 "length t"]
    by (simp only: re_found_def re_search_def)
qed

lemma re_found_y_es: "re_found False rx_y_es t \<longleftrightarrow> whole_word ''y'' t \<or> whole_word ''yes'' t"
proof -
  have yes: "\<And>i. lit_at False ''yes'' t i \<longleftrightarrow> lit_at False ''y'' t i \<and> lit_at False ''es'' t (Suc i)"
    using lit_at_append [of "''y''" "''es''" t] by simp
  have A: "\<And>j. rmatch False rx_y_es t (j, []) \<noteq> [] \<longleftrightarrow>
      (lit_at False ''y'' t j \<and> word_boundary t j \<and> word_boundary t (j + length ''y''))
      \<or> (lit_at False ''yes'' t j \<and> word_boundary t j \<and> word_boundary t (j + length ''yes''))"
    unfolding rmatch_y_es yes by auto
  show ?thesis
    unfolding re_found_bounded whole_word_def list_ex_iff A by blast
qed

lemma re_found_n_o: "re_found False rx_n_o t \<longleftrightarrow> whole_word ''n'' t \<or> whole_word ''no'' t"
proof -
  have no: "\<And>i. lit_at False ''no'' t i \<longleftrightarrow> lit_at False ''n'' t i \<and> lit_at False ''o'' t (Suc i)"
    using lit_at_append [of "''n''" "''o''" t] by simp
  have A: "\<And>j. rmatch False rx_n_o t (j, []) \<noteq> [] \<longleftrightarrow>
      (lit_at False ''n'' t j \<and> word_boundary t j \<and> word_boundary t (j + length ''n''))
      \<or> (lit_at False ''no'' t j \<and> word_boundary t j \<and> word_boundary t (j + length ''no''))"
    unfolding rmatch_n_o no by auto
  show ?thesis
    unfolding re_found_bounded whole_word_def list_ex_iff A by blast
qed

lemma lower_lower: "lower (lower s) = lower s"
  by (auto simp add: lower_def lower_char_def Let_def)

text \<open>
  Claim C8, as stated, fails on \<open>_yn\<close>: it has no whole-word fallback, so
  \<open>yes please\<close> is unknown, where the parser the claim describes answers yes.
\<close>

theorem yn_no_regex_fallback:
  "yn ''yes please'' = None \<and> parseYesNo_spec YES NO ''yes please'' = Some True"
  by code_simp

text \<open>
  Claim C8, amended. \<open>_parse_yes_no\<close> of the \<open>livewell-e\<close> backend is the parser of the
  claim: a case-insensitive exact-token match against its yes-set and no-set, then a
  whole-word match for a bare \<open>y\<close>, \<open>yes\<close>, \<open>n\<close> or \<open>no\<close> (yes tried first), else unknown.
  \<open>_yn\<close> of \<open>app/graph/nodes.py\<close> is the exact-token match alone, insensitive to case,
  with no fallback. Neither yes-set holds \<open>ok\<close> or \<open>okay\<close>; both texts are unknown to
  both parsers.
\<close>

theorem yes_no_parsers:
  "fst (lw_parse_yes_no text) = parseYesNo_spec lw_yes lw_no text
   \<and> yn text = exact_yes_no YES NO text
   \<and> yn (lower text) = yn text
   \<and> yn ''ok'' = None \<and> yn ''okay'' = None
   \<and> fst (lw_parse_yes_no ''ok'') = None \<and> fst (lw_parse_yes_no ''okay'') = None"
proof -
  have 1: "fst (lw_parse_yes_no text) = parseYesNo_spec lw_yes lw_no text"
    by (simp add: lw_parse_yes_no_def parseYesNo_spec_def exact_yes_no_def Let_def strip_lower
        re_found_y_es re_found_n_o)
  have 2: "yn text = exact_yes_no YES NO text"
    by (simp add: yn_def exact_yes_no_def)
  have 3: "yn (lower text) = yn text"
    by (simp add: yn_def strip_lower [symmetric] lower_lower)
  have 4: "yn ''ok'' = None \<and> yn ''okay'' = None" by code_simp
  have 5: "fst (lw_parse_yes_no ''ok'') = None \<and> fst (lw_parse_yes_no ''okay'') = None"
    by code_simp
  from 1 2 3 4 5 show ?thesis by blast
qed

theorem yes_no_parsers_witness:
  "fst (lw_parse_yes_no ''Yes please'') = Some True \<and> yn ''Yes please'' = None"
proof -
  have "parseYesNo_spec lw_yes lw_no ''Yes please'' = Some True" by code_simp
  moreover have "exact_yes_no YES NO ''Yes please'' = None" by code_simp
  ultimately show ?thesis using yes_no_parsers [of "''Yes please''"] by simp
qed

section \<open>Intent classification: properties\<close>

text \<open>
  Claim C2. When \<open>awaiting\<close> holds one of the values the program gives it
  (\<open>confirm_checkin\<close>, \<open>prisma\<close>, \<open>post_checkin\<close>, \<open>after_plan\<close>, or a text starting with
  \<open>slot:\<close>), \<open>classify_intent\<close> changes nothing but the label, sets it to the handler of
  that value, and the route taken is the same whatever the transcript holds: no keyword or
  pattern is consulted on the message.
\<close>

theorem classify_intent_awaiting:
  assumes "awaiting st = Some a"
    and "a \<in> set [''confirm_checkin'', ''prisma'', ''post_checkin'', ''after_plan'']
         \<or> startswith a ''slot:''"
  shows "classify_intent st = st\<lparr>label := Some
           (if a = ''confirm_checkin'' then ''handle_checkin_confirmation''
            else if a = ''prisma'' then ''continue_prisma''
            else if a = ''post_checkin'' then ''handle_post_checkin''
            else if a = ''after_plan'' then ''handle_after_plan''
            else ''continue_slot'')\<rparr>
     \<and> policy_router (classify_intent (st\<lparr>messages := ms\<rparr>)) = policy_router (classify_intent st)"
proof -
  let ?l = "if a = ''confirm_checkin'' then ''handle_checkin_confirmation''
            else if a = ''prisma'' then ''continue_prisma''
            else if a = ''post_checkin'' then ''handle_post_checkin''
            else if a = ''after_plan'' then ''handle_after_plan''
            else ''continue_slot''"
  have slot: "startswith a ''slot:''"
    if "a \<noteq> ''confirm_checkin''" "a \<noteq> ''prisma''" "a \<noteq> ''post_checkin''" "a \<noteq> ''after_plan''"
    using that assms(2) by simp
  have gen: "classify_intent s = s\<lparr>label := Some ?l\<rparr>" if "awaiting s = Some a" for s
    using that slot by (simp add: classify_intent_def Let_def)
  have 1: "classify_intent st = st\<lparr>label := Some ?l\<rparr>"
    using assms(1) by (rule gen)
  have "awaiting (st\<lparr>messages := ms\<rparr>) = Some a"
    using assms(1) by simp
  then have 2: "classify_intent (st\<lparr>messages := ms\<rparr>) = st\<lparr>messages := ms, label := Some ?l\<rparr>"
    using gen [of "st\<lparr>messages := ms\<rparr>"] by simp
  show ?thesis
    unfolding 1 2 by (simp add: policy_router_def)
qed

theorem classify_intent_awaiting_witness:
  "policy_router (classify_intent (add_user_message (new_session\<lparr>awaiting := Some ''slot:mood''\<rparr>) ''daily check-in''))
     = ''continue_slot''
   \<and> policy_router (classify_intent (add_user_message new_session ''daily check-in'')) = ''start_prisma''"
proof -
  let ?st = "add_user_message (new_session\<lparr>awaiting := Some ''slot:mood''\<rparr>) ''daily check-in''"
  have a: "awaiting ?st = Some ''slot:mood''"
    by (simp add: add_user_message_def new_session_def)
  have b: "''slot:mood'' \<in> set [''confirm_checkin'', ''prisma'', ''post_checkin'', ''after_plan'']
         \<or> startswith ''slot:mood'' ''slot:''"
    by (simp add: startswith_def)
  have c: "policy_router (classify_intent (add_user_message new_session ''daily check-in'')) = ''start_prisma''"
    by code_simp
  from classify_intent_awaiting [OF a b] c show ?thesis
    by (simp add: policy_router_def)
qed

section \<open>The check-in wizard: properties\<close>

lemma py_index_in_range:
  "0 \<le> i \<Longrightarrow> i < int (length xs) \<Longrightarrow> py_index xs i = Inr (xs ! nat i)"
  by (simp add: py_index_def)

text \<open>
  Claim C5. In the wizard (\<open>awaiting = prisma\<close>, index \<open>i\<close> between 0 and 6), on a message
  that \<open>_yn\<close> does not read as yes or no, \<open>continue_prisma\<close> returns normally and changes
  only \<open>awaiting\<close> (set to \<open>prisma\<close> again) and \<open>reply\<close>: the index and every recorded answer
  stay as they were, and the reply asks question \<open>i\<close> again, numbered \<open>i + 1\<close>.
\<close>

theorem continue_prisma_unparsed:
  assumes "awaiting st = Some ''prisma''"
    and "0 \<le> prisma_index st" and "prisma_index st \<le> 6"
    and "yn (last_user_text st) = None"
  shows "\<exists>st'. continue_prisma st = Inr st'
           \<and> st' = st\<lparr>awaiting := Some ''prisma'',
                       reply := Some (''Q'' @ dec_int (prisma_index st + 1) @ '': ''
                                      @ qtext (PRISMA_QUESTIONS ! nat (prisma_index st)))\<rparr>
           \<and> prisma_index st' = prisma_index st
           \<and> prisma_answers st' = prisma_answers st
           \<and> awaiting st' = Some ''prisma''
           \<and> reply st' = Some (''Q'' @ dec_int (prisma_index st + 1) @ '': ''
                                @ qtext (PRISMA_QUESTIONS ! nat (prisma_index st)))"
proof -
  have n: "int (length PRISMA_QUESTIONS) = 7" by (simp add: PRISMA_QUESTIONS_def)
  have i: "py_index PRISMA_QUESTIONS (prisma_index st)
             = Inr (PRISMA_QUESTIONS ! nat (prisma_index st))"
    using assms(2,3) n by (intro py_index_in_range) simp_all
  have "continue_prisma st =
           Inr (st\<lparr>awaiting := Some ''prisma'',
                   reply := Some (''Q'' @ dec_int (prisma_index st + 1) @ '': ''
                                  @ qtext (PRISMA_QUESTIONS ! nat (prisma_index st)))\<rparr>)"
    using assms n i by (simp add: continue_prisma_def ebind_def Let_def)
  then show ?thesis by simp
qed

theorem continue_prisma_unparsed_witness:
  "continue_prisma
     (add_user_message
        (new_session\<lparr>awaiting := Some ''prisma'', prisma_index := 2,
            prisma_answers := [''over_85'' \<mapsto> PBool False, ''male'' \<mapsto> PBool True]\<rparr>)
        ''maybe later?'')
   = Inr ((add_user_message
        (new_session\<lparr>awaiting := Some ''prisma'', prisma_index := 2,
            prisma_answers := [''over_85'' \<mapsto> PBool False, ''male'' \<mapsto> PBool True]\<rparr>)
        ''maybe later?'')
        \<lparr>awaiting := Some ''prisma'',
         reply := Some ''Q3: Do health problems limit your activities? (yes/no)''\<rparr>)"
proof -
  let ?st = "add_user_message
        (new_session\<lparr>awaiting := Some ''prisma'', prisma_index := 2,
            prisma_answers := [''over_85'' \<mapsto> PBool False, ''male'' \<mapsto> PBool True]\<rparr>)
        ''maybe later?''"
  have a: "awaiting ?st = Some ''prisma''"
    by (simp add: add_user_message_def new_session_def)
  have i: "prisma_index ?st = 2"
    by (simp add: add_user_message_def new_session_def)
  have t: "last_user_text ?st = ''maybe later?''"
    by (simp add: add_user_message_def new_session_def last_user_text_def)
  have y: "yn ''maybe later?'' = None" by code_simp
  have d: "dec_int 3 = ''3''" by code_simp
  have q: "qtext (PRISMA_QUESTIONS ! 2) = ''Do health problems limit your activities? (yes/no)''"
    by (simp add: PRISMA_QUESTIONS_def)
  from continue_prisma_unparsed [of ?st] a i t y
  have "continue_prisma ?st = Inr (?st\<lparr>awaiting := Some ''prisma'',
          reply := Some (''Q'' @ dec_int (2 + 1) @ '': '' @ qtext (PRISMA_QUESTIONS ! nat 2))\<rparr>)"
    by simp
  then show ?thesis using d q by simp
qed

end
